theory Spec2Isabelle
  imports Main "HOL-Library.Word"
begin

unbundle bit_operations_syntax

section \<open>Arithmetic modulo p (libpolys/coeffs/modulop.h)\<close>

text \<open>
  A \<open>number\<close> of this domain is a pointer-sized value that the inline operations cast to
  \<open>long\<close> or \<open>unsigned long\<close> before computing. It is modelled as a word of the width of
  \<open>long\<close>: \<open>64 word\<close> where \<open>SIZEOF_LONG == 8\<close>, \<open>32 word\<close> otherwise. Unsigned comparison
  is \<open><\<close>, signed comparison is \<open><s\<close>, \<open>+\<close> and \<open>-\<close> wrap around.

  The structure \<open>n_Procs_s\<close> is declared outside this header; the operations below read its
  field \<open>ch\<close> (the characteristic) only, always converted to the width of \<open>long\<close>, so the
  record carries that converted value.
\<close>

type_synonym 'l number = "'l word"

record 'w n_Procs_s =
  ch :: 'w

text \<open>
  \<open>res >> 63\<close> under \<open>#if SIZEOF_LONG == 8\<close>, \<open>res >> 31\<close> under \<open>#else\<close>, on a signed
  \<open>long\<close>. The shift of a negative value is the arithmetic one (the sign bit is copied),
  which is what the code relies on to obtain the mask \<open>-1\<close> or \<open>0\<close>.
\<close>

definition long_sign :: "'l::len word \<Rightarrow> 'l word" where
  "long_sign res =
     (if LENGTH('l) = 64 then signed_drop_bit 63 res else signed_drop_bit 31 res)"

text \<open>The variants under \<open>#ifdef HAVE_GENERIC_ADD\<close>, which use a comparison.\<close>

definition npAddM_generic :: "'l::len number \<Rightarrow> 'l number \<Rightarrow> 'l word n_Procs_s \<Rightarrow> 'l number" where
  "npAddM_generic a b r = (let R = a + b in if ch r \<le> R then R - ch r else R)"

definition npSubM_generic :: "'l::len number \<Rightarrow> 'l number \<Rightarrow> 'l word n_Procs_s \<Rightarrow> 'l number" where
  "npSubM_generic a b r = (if a <s b then ch r - b + a else a - b)"

text \<open>The variants under \<open>#else\<close> (the ones compiled: \<open>HAVE_GENERIC_ADD\<close> is not defined).\<close>

definition npAddM :: "'l::len number \<Rightarrow> 'l number \<Rightarrow> 'l word n_Procs_s \<Rightarrow> 'l number" where
  "npAddM a b r =
     (let res = a + b;
          res = res - ch r;
          res = res + (long_sign res AND ch r)
      in res)"

definition npSubM :: "'l::len number \<Rightarrow> 'l number \<Rightarrow> 'l word n_Procs_s \<Rightarrow> 'l number" where
  "npSubM a b r =
     (let res = a - b;
          res = res + (long_sign res AND ch r)
      in res)"

definition npNegM :: "'l::len number \<Rightarrow> 'l word n_Procs_s \<Rightarrow> 'l number" where
  "npNegM a r = ch r - a"

definition npIsZeroM :: "'l::len number \<Rightarrow> 'l word n_Procs_s \<Rightarrow> bool" where
  "npIsZeroM a r = (0 = a)"


section \<open>The polyhedral cone (gfanlib/gfanlib_zcone.h)\<close>

text \<open>
  Modelled from the spec: the scalar, vector and matrix types come from headers that are not
  part of these sources (\<open>gfanlib_matrix.h\<close> and what it includes). The specification
  describes them as an exact-arithmetic abstraction, rows of arbitrary-precision integers,
  each matrix of a fixed width. An \<open>Integer\<close> is therefore an \<open>int\<close>, a \<open>ZVector\<close> a list of
  them, and a \<open>ZMatrix\<close> its width together with the list of its rows.
\<close>

type_synonym Integer = int

type_synonym ZVector = "Integer list"

record ZMatrix =
  width :: nat
  rows :: "ZVector list"

text \<open>A C++ \<open>int\<close>: 32 bits, compared as a signed value with \<open>\<le>s\<close> and \<open><s\<close>.\<close>

type_synonym c_int = "32 word"

text \<open>
  \<open>enum PolyhedralConePreassumptions\<close>. Its values are combined with \<open>&\<close> and stored in an
  \<open>int\<close>, so they are modelled as the integers the enumeration assigns.
\<close>

definition PCP_none :: c_int where
  "PCP_none = 0"

definition PCP_impliedEquationsKnown :: c_int where
  "PCP_impliedEquationsKnown = 1"

definition PCP_facetsKnown :: c_int where
  "PCP_facetsKnown = 2"

text \<open>The data members of \<open>class ZCone\<close>, in the order of their declaration.\<close>

record ZCone =
  preassumptions :: c_int
  state :: c_int
  n :: c_int
  multiplicity :: Integer
  linearForms :: ZMatrix
  inequalities :: ZMatrix
  equations :: ZMatrix
  cachedExtremeRays :: ZMatrix
  haveExtremeRaysBeenCached :: bool

text \<open>
  Several data members are \<open>mutable\<close>, so a \<open>const\<close> member function may still write to the
  object. A member function is therefore modelled as a function from the cone to its result
  paired with the cone it leaves behind. The two inline predicates consist of one \<open>return\<close>
  of an expression without assignment; an \<open>int\<close> used as a truth value is true when nonzero.
\<close>

definition areFacetsKnown :: "ZCone \<Rightarrow> bool \<times> ZCone" where
  "areFacetsKnown c = ((2 \<le>s state c) \<or> (preassumptions c AND PCP_facetsKnown \<noteq> 0), c)"

definition areImpliedEquationsKnown :: "ZCone \<Rightarrow> bool \<times> ZCone" where
  "areImpliedEquationsKnown c =
     ((1 \<le>s state c) \<or> (preassumptions c AND PCP_impliedEquationsKnown \<noteq> 0), c)"


section \<open>The knowledge levels of a cone\<close>

text \<open>
  The header declares the member functions of this section and the next; their bodies are
  in \<open>gfanlib_zcone.cpp\<close>, which is not part of these sources. Each definition below follows
  the specification and says so.
\<close>

text \<open>
  Modelled from the spec: the three advancing computations of section 4.1 (implied
  equations, facets, canonical form). They rest on the linear-programming and normal-form
  primitives that section 6 lists as an external dependency, so they are parameters: each
  maps the pair (inequalities, equations) to the pair that replaces it.
\<close>

record advancing =
  impliedEquationsStep :: "ZMatrix \<times> ZMatrix \<Rightarrow> ZMatrix \<times> ZMatrix"
  facetsStep :: "ZMatrix \<times> ZMatrix \<Rightarrow> ZMatrix \<times> ZMatrix"
  canonicalStep :: "ZMatrix \<times> ZMatrix \<Rightarrow> ZMatrix \<times> ZMatrix"

text \<open>
  Modelled from the spec: the preassumption flag that corresponds to a level. Section 3 has
  flags for EQUATIONS_KNOWN (level 1) and FACETS_KNOWN (level 2) only.
\<close>

definition flagOfLevel :: "c_int \<Rightarrow> c_int" where
  "flagOfLevel s =
     (if s = 1 then PCP_impliedEquationsKnown
      else if s = 2 then PCP_facetsKnown
      else PCP_none)"

text \<open>
  Modelled from the spec: \<open>isInStateMinimum\<close> (body missing). Section 4.1: a pure predicate,
  true if \<open>level >= target\<close> or the corresponding preassumption flag is set.
\<close>

definition isInStateMinimum :: "c_int \<Rightarrow> ZCone \<Rightarrow> bool \<times> ZCone" where
  "isInStateMinimum s c = ((s \<le>s state c) \<or> (preassumptions c AND flagOfLevel s \<noteq> 0), c)"

text \<open>
  Modelled from the spec: one advancing computation, which updates inequalities and
  equations in place (section 4.1) and leaves every other member as it is.
\<close>

definition advanceBy :: "(ZMatrix \<times> ZMatrix \<Rightarrow> ZMatrix \<times> ZMatrix) \<Rightarrow> ZCone \<Rightarrow> ZCone" where
  "advanceBy f c =
     (let (ineqs, eqs) = f (inequalities c, equations c)
      in c\<lparr>inequalities := ineqs, equations := eqs\<rparr>)"

text \<open>
  Modelled from the spec: the transition into level \<open>k\<close> on the way to the target \<open>s\<close>. It
  runs when the cone is below \<open>k\<close>, the target is at least \<open>k\<close>, and no preassumption flag
  lets the state machine skip the computation (section 3, \<open>preassumptions\<close>).
\<close>

definition transition :: "advancing \<Rightarrow> c_int \<Rightarrow> c_int \<Rightarrow> ZCone \<Rightarrow> ZCone" where
  "transition adv k s c =
     (if state c <s k \<and> k \<le>s s \<and> \<not> fst (isInStateMinimum k c)
      then advanceBy (if k = 1 then impliedEquationsStep adv
                      else if k = 2 then facetsStep adv
                      else canonicalStep adv) c
      else c)"

text \<open>
  Modelled from the spec: \<open>ensureStateAsMinimum\<close> (body missing). Section 4.1: if the current
  level is below the target and the target is not already implied by the preassumption
  flags, run the advancing computations needed to reach the target, updating inequalities
  and equations in place, then set the level to the target; otherwise do nothing.
\<close>

definition ensureStateAsMinimum :: "advancing \<Rightarrow> c_int \<Rightarrow> ZCone \<Rightarrow> ZCone" where
  "ensureStateAsMinimum adv s c =
     (if fst (isInStateMinimum s c) then c
      else (transition adv 3 s (transition adv 2 s (transition adv 1 s c)))\<lparr>state := s\<rparr>)"

text \<open>
  Modelled from the spec: what an operation of the public interface does to the object
  (bodies missing). Sections 2 and 3: an operation first ensures the level it needs and then
  reads its result off the members; \<open>canonicalize\<close>, \<open>findFacets\<close> and
  \<open>findImpliedEquations\<close> ensure the levels 3, 2 and 1; a \<open>const\<close> read that needs level \<open>s\<close>
  ensures \<open>s\<close> (\<open>ReadAtLevel s\<close>; a read that needs nothing is \<open>ReadAtLevel 0\<close>);
  \<open>setMultiplicity\<close> and \<open>setLinearForms\<close> store their argument verbatim; the extreme rays,
  once computed, are stored in the cache, which is filled at most once (section 4.3).
\<close>

datatype operation =
    Canonicalize
  | FindFacets
  | FindImpliedEquations
  | ReadAtLevel c_int
  | SetMultiplicity Integer
  | SetLinearForms ZMatrix
  | CacheExtremeRays ZMatrix

fun applyOperation :: "advancing \<Rightarrow> operation \<Rightarrow> ZCone \<Rightarrow> ZCone" where
  "applyOperation adv Canonicalize c = ensureStateAsMinimum adv 3 c"
| "applyOperation adv FindFacets c = ensureStateAsMinimum adv 2 c"
| "applyOperation adv FindImpliedEquations c = ensureStateAsMinimum adv 1 c"
| "applyOperation adv (ReadAtLevel s) c = ensureStateAsMinimum adv s c"
| "applyOperation adv (SetMultiplicity m) c = c\<lparr>multiplicity := m\<rparr>"
| "applyOperation adv (SetLinearForms l) c = c\<lparr>linearForms := l\<rparr>"
| "applyOperation adv (CacheExtremeRays rays) c =
     (if haveExtremeRaysBeenCached c then c
      else c\<lparr>cachedExtremeRays := rays, haveExtremeRaysBeenCached := True\<rparr>)"

text \<open>A sequence of operations on one object, first to last.\<close>

fun runOperations :: "advancing \<Rightarrow> operation list \<Rightarrow> ZCone \<Rightarrow> ZCone" where
  "runOperations adv [] c = c"
| "runOperations adv (op # ops) c = runOperations adv ops (applyOperation adv op c)"

text \<open>
  An instance of the parameters for evaluating the state machine on examples: advancing
  computations that leave the matrices alone.
\<close>

definition leaveMatrices :: advancing where
  "leaveMatrices =
     \<lparr>impliedEquationsStep = (\<lambda>p. p), facetsStep = (\<lambda>p. p), canonicalStep = (\<lambda>p. p)\<rparr>"


section \<open>Construction and containment of a vector\<close>

text \<open>
  Modelled from the spec: the dot product of two vectors (\<open>gfanlib_vector.h\<close> is missing),
  the sum of the products of corresponding entries.
\<close>

fun dot :: "ZVector \<Rightarrow> ZVector \<Rightarrow> Integer" where
  "dot (x # xs) (y # ys) = x * y + dot xs ys"
| "dot _ _ = 0"

text \<open>
  Modelled from the spec: \<open>contains(vector)\<close> (body missing). Section 4.5: evaluate every
  inequality (\<open>\<ge> 0\<close>) and every equation (\<open>= 0\<close>) directly, with no state advancement. The
  two loops over the rows stop at the first row that fails.
\<close>

fun allNonNegative :: "ZVector list \<Rightarrow> ZVector \<Rightarrow> bool" where
  "allNonNegative [] v = True"
| "allNonNegative (r # rs) v = (if dot r v < 0 then False else allNonNegative rs v)"

fun allZero :: "ZVector list \<Rightarrow> ZVector \<Rightarrow> bool" where
  "allZero [] v = True"
| "allZero (e # es) v = (if dot e v \<noteq> 0 then False else allZero es v)"

definition contains :: "ZCone \<Rightarrow> ZVector \<Rightarrow> bool \<times> ZCone" where
  "contains c v =
     (if \<not> allNonNegative (rows (inequalities c)) v then (False, c)
      else if \<not> allZero (rows (equations c)) v then (False, c)
      else (True, c))"

text \<open>
  Modelled from the spec: the matrices and the vector that the constructors need (missing
  with \<open>gfanlib_matrix.h\<close>): the matrix without rows, the identity matrix, the zero vector.
\<close>

definition emptyMatrix :: "nat \<Rightarrow> ZMatrix" where
  "emptyMatrix w = \<lparr>width = w, rows = []\<rparr>"

definition unitVector :: "nat \<Rightarrow> nat \<Rightarrow> ZVector" where
  "unitVector d i = map (\<lambda>j. if j = i then 1 else 0) [0..<d]"

definition identity :: "nat \<Rightarrow> ZMatrix" where
  "identity d = \<lparr>width = d, rows = map (unitVector d) [0..<d]\<rparr>"

definition zeroVector :: "nat \<Rightarrow> ZVector" where
  "zeroVector d = replicate d 0"

text \<open>
  Modelled from the spec: the constructor \<open>ZCone(inequalities_, equations_, preassumptions_)\<close>
  (body missing). Section 3: a cone is constructed from a pair of matrices and optional
  preassumption flags; it starts at level RAW with multiplicity 1, no linear forms and an
  empty cache; the ambient dimension is the common width of the matrices.
\<close>

definition newZCone :: "ZMatrix \<Rightarrow> ZMatrix \<Rightarrow> c_int \<Rightarrow> ZCone" where
  "newZCone inequalities' equations' preassumptions' =
     \<lparr>preassumptions = preassumptions',
      state = 0,
      n = of_nat (width inequalities'),
      multiplicity = 1,
      linearForms = emptyMatrix (width inequalities'),
      inequalities = inequalities',
      equations = equations',
      cachedExtremeRays = emptyMatrix (width inequalities'),
      haveExtremeRaysBeenCached = False\<rparr>"

text \<open>
  Modelled from the spec: \<open>positiveOrthant(dimension)\<close> (body missing), the cone of the
  vectors with no negative coordinate: one inequality \<open>x\<^sub>i \<ge> 0\<close> per coordinate, no equation.
\<close>

definition positiveOrthant :: "c_int \<Rightarrow> ZCone" where
  "positiveOrthant dimension =
     newZCone (identity (unat dimension)) (emptyMatrix (unat dimension)) PCP_none"

text \<open>
  The invariant of section 3 on a cone and a vector handed to it: the vector and every row
  of the inequalities and of the equations have exactly \<open>n\<close> entries.
\<close>

definition matchingDimension :: "ZCone \<Rightarrow> ZVector \<Rightarrow> bool" where
  "matchingDimension c v =
     (length v = unat (n c)
      \<and> list_all (\<lambda>r. length r = unat (n c)) (rows (inequalities c))
      \<and> list_all (\<lambda>e. length e = unat (n c)) (rows (equations c)))"


section \<open>Facts about words of the width of long\<close>

lemma two_half: "(2::int) * 2 ^ (LENGTH('a::len) - Suc 0) = 2 ^ LENGTH('a)"
proof -
  have "(2::int) * 2 ^ (LENGTH('a) - Suc 0) = 2 ^ Suc (LENGTH('a) - Suc 0)"
    by (simp only: power_Suc)
  also have "Suc (LENGTH('a) - Suc 0) = LENGTH('a)" by simp
  finally show ?thesis .
qed

lemma half_less: "(2::int) ^ (LENGTH('a::len) - Suc 0) < 2 ^ LENGTH('a)"
  using two_half [where 'a='a] by simp

lemma signed_drop_bit_top:
  "signed_drop_bit (LENGTH('a) - Suc 0) (w :: 'a::len word) = (if sint w < 0 then - 1 else 0)"
proof (rule bit_word_eqI)
  fix i assume i: "i < LENGTH('a)"
  have "bit (signed_drop_bit (LENGTH('a) - Suc 0) w) i = bit w (LENGTH('a) - Suc 0)"
    using i by (cases i) (simp_all add: bit_signed_drop_bit_iff)
  also have "\<dots> = (sint w < 0)" by (simp add: bit_last_iff)
  finally show "bit (signed_drop_bit (LENGTH('a) - Suc 0) w) i
      = bit (if sint w < 0 then - 1 else 0 :: 'a word) i"
    using i by simp
qed

lemma long_sign_eq:
  fixes w :: "'l::len word"
  assumes "LENGTH('l) = 64 \<or> LENGTH('l) = 32"
  shows "long_sign w = (if sint w < 0 then - 1 else 0)"
proof -
  from assms consider "LENGTH('l) = 64" | "LENGTH('l) = 32" by blast
  then show ?thesis
  proof cases
    case 1
    then have "long_sign w = signed_drop_bit (LENGTH('l) - Suc 0) w"
      by (simp add: long_sign_def)
    then show ?thesis by (simp only: signed_drop_bit_top)
  next
    case 2
    then have "long_sign w = signed_drop_bit (LENGTH('l) - Suc 0) w"
      by (simp add: long_sign_def)
    then show ?thesis by (simp only: signed_drop_bit_top)
  qed
qed

lemma uint_eq_sint_nonneg:
  fixes p :: "'a::len word"
  assumes "0 \<le> sint p"
  shows "uint p = sint p"
proof -
  have "sint p < 2 ^ LENGTH('a)"
    using sint_less [of p] half_less [where 'a='a] by linarith
  then have "take_bit LENGTH('a) (sint p) = sint p"
    using assms by (simp add: take_bit_int_eq_self)
  then show ?thesis by (simp add: uint_sint)
qed

lemma pos_long:
  fixes p :: "'a::len word"
  assumes "0 <s p"
  shows "0 < uint p \<and> uint p < 2 ^ (LENGTH('a) - Suc 0)"
proof -
  from assms have "0 < sint p" by (simp add: word_sless_alt)
  then show ?thesis using uint_eq_sint_nonneg [of p] sint_less [of p] by simp
qed

lemma sint_wi_exact:
  "- (2 ^ (LENGTH('a) - Suc 0)) \<le> k \<Longrightarrow> k < 2 ^ (LENGTH('a) - Suc 0)
    \<Longrightarrow> sint (word_of_int k :: 'a::len word) = k"
  by (simp add: sint_sbintrunc' signed_take_bit_int_eq_self)

lemma uint_wi_exact:
  "0 \<le> k \<Longrightarrow> k < 2 ^ LENGTH('a) \<Longrightarrow> uint (word_of_int k :: 'a::len word) = k"
  using word_of_int_inverse by blast

lemma int_mod_wrap_once: "(p::int) \<le> x \<Longrightarrow> x < 2 * p \<Longrightarrow> x mod p = x - p"
proof -
  assume a: "p \<le> x" "x < 2 * p"
  have "x mod p = (x - p) mod p" by simp
  also have "\<dots> = x - p" using a by (intro mod_pos_pos_trivial) linarith+
  finally show ?thesis .
qed

lemma int_mod_wrap_neg: "- (p::int) \<le> x \<Longrightarrow> x < 0 \<Longrightarrow> x mod p = x + p"
proof -
  assume a: "- p \<le> x" "x < 0"
  have "x mod p = (x + p) mod p" by simp
  also have "\<dots> = x + p" using a by (intro mod_pos_pos_trivial) linarith+
  finally show ?thesis .
qed

lemma residue_bounds:
  fixes a p :: "'a::len word"
  assumes "0 <s p" "a < p"
  shows "0 \<le> uint a \<and> uint a < uint p \<and> uint p < 2 ^ (LENGTH('a) - Suc 0) \<and> sint a = uint a"
proof -
  have P: "0 < uint p" "uint p < 2 ^ (LENGTH('a) - Suc 0)" using pos_long [OF assms(1)] by simp_all
  have A: "uint a < uint p" using assms(2) by (simp add: word_less_def)
  have "a = word_of_int (uint a)" by simp
  then have "sint a = sint (word_of_int (uint a) :: 'a word)" by simp
  also have "\<dots> = uint a"
    using P A uint_nonnegative [of a] by (intro sint_wi_exact) linarith+
  finally show ?thesis using P A by simp
qed

lemma sint_add_sub:
  fixes a b p :: "'a::len word"
  assumes "0 <s p" "a < p" "b < p"
  shows "sint (a + b - p) = uint a + uint b - uint p"
proof -
  note A = residue_bounds [OF assms(1,2)] and B = residue_bounds [OF assms(1,3)]
  have eq: "a + b - p = word_of_int (uint a + uint b - uint p)"
    by (simp add: wi_hom_add wi_hom_sub)
  have lo: "- (2 ^ (LENGTH('a) - Suc 0)) \<le> uint a + uint b - uint p"
    using A B by linarith
  have hi: "uint a + uint b - uint p < 2 ^ (LENGTH('a) - Suc 0)"
    using A B by linarith
  show ?thesis unfolding eq using lo hi by (rule sint_wi_exact)
qed

lemma uint_add_exact:
  fixes a b p :: "'a::len word"
  assumes "0 <s p" "a < p" "b < p"
  shows "uint (a + b) = uint a + uint b"
proof -
  note A = residue_bounds [OF assms(1,2)] and B = residue_bounds [OF assms(1,3)]
  have "uint a + uint b < 2 ^ LENGTH('a)"
    using A B two_half [where 'a='a] by linarith
  then show ?thesis by (simp add: uint_add_lem)
qed

lemma sint_sub_exact:
  fixes a b p :: "'a::len word"
  assumes "0 <s p" "a < p" "b < p"
  shows "sint (a - b) = uint a - uint b"
proof -
  note A = residue_bounds [OF assms(1,2)] and B = residue_bounds [OF assms(1,3)]
  have lo: "- (2 ^ (LENGTH('a) - Suc 0)) \<le> uint a - uint b"
    using A B by linarith
  have hi: "uint a - uint b < 2 ^ (LENGTH('a) - Suc 0)"
    using A B by linarith
  have eq: "a - b = word_of_int (uint a - uint b)" by (simp add: wi_hom_sub)
  show ?thesis unfolding eq using lo hi by (rule sint_wi_exact)
qed

lemma npAddM_cases:
  fixes a b :: "'l::len number"
  assumes L: "LENGTH('l) = 64 \<or> LENGTH('l) = 32"
    and p: "0 <s ch r" and a: "a < ch r" and b: "b < ch r"
  shows "npAddM a b r = (if uint a + uint b < uint (ch r) then a + b else a + b - ch r)"
proof -
  have "sint (a + b - ch r) < 0 \<longleftrightarrow> uint a + uint b < uint (ch r)"
    by (simp add: sint_add_sub [OF p a b])
  then show ?thesis
    by (simp add: npAddM_def Let_def long_sign_eq [OF L])
qed

lemma npAddM_generic_cases:
  fixes a b :: "'l::len number"
  assumes p: "0 <s ch r" and a: "a < ch r" and b: "b < ch r"
  shows "npAddM_generic a b r = (if uint a + uint b < uint (ch r) then a + b else a + b - ch r)"
  by (auto simp add: npAddM_generic_def Let_def word_le_def uint_add_exact [OF p a b])

lemma uint_add_residues:
  fixes a b :: "'l::len number"
  assumes p: "0 <s ch r" and a: "a < ch r" and b: "b < ch r"
  shows "uint (if uint a + uint b < uint (ch r) then a + b else a + b - ch r)
         = (uint a + uint b) mod uint (ch r)"
proof (cases "uint a + uint b < uint (ch r)")
  case True
  then show ?thesis
    using uint_nonnegative [of a] uint_nonnegative [of b]
    by (simp add: uint_add_exact [OF p a b] mod_pos_pos_trivial)
next
  case False
  note A = residue_bounds [OF p a] and B = residue_bounds [OF p b]
  have le: "uint (ch r) \<le> uint (a + b)" using False by (simp add: uint_add_exact [OF p a b])
  then have "uint (a + b - ch r) = uint (a + b) - uint (ch r)" by (simp add: uint_sub_lem)
  also have "\<dots> = uint a + uint b - uint (ch r)" by (simp add: uint_add_exact [OF p a b])
  also have "\<dots> = (uint a + uint b) mod uint (ch r)"
    using False A B by (intro int_mod_wrap_once [symmetric]) linarith+
  finally show ?thesis using False by simp
qed

lemma npSubM_cases:
  fixes a b :: "'l::len number"
  assumes L: "LENGTH('l) = 64 \<or> LENGTH('l) = 32"
    and p: "0 <s ch r" and a: "a < ch r" and b: "b < ch r"
  shows "npSubM a b r = (if uint a < uint b then a - b + ch r else a - b)"
proof -
  have "sint (a - b) < 0 \<longleftrightarrow> uint a < uint b"
    by (simp add: sint_sub_exact [OF p a b])
  then show ?thesis
    by (simp add: npSubM_def Let_def long_sign_eq [OF L])
qed

lemma npSubM_generic_cases:
  fixes a b :: "'l::len number"
  assumes p: "0 <s ch r" and a: "a < ch r" and b: "b < ch r"
  shows "npSubM_generic a b r = (if uint a < uint b then a - b + ch r else a - b)"
  using residue_bounds [OF p a] residue_bounds [OF p b]
  by (simp add: npSubM_generic_def word_sless_alt)

lemma uint_sub_residues:
  fixes a b :: "'l::len number"
  assumes p: "0 <s ch r" and a: "a < ch r" and b: "b < ch r"
  shows "uint (if uint a < uint b then a - b + ch r else a - b)
         = (uint a - uint b) mod uint (ch r)"
proof (cases "uint a < uint b")
  case True
  note A = residue_bounds [OF p a] and B = residue_bounds [OF p b]
  have eq: "a - b + ch r = word_of_int (uint a - uint b + uint (ch r))"
    by (simp add: wi_hom_add wi_hom_sub)
  have "uint (a - b + ch r) = uint a - uint b + uint (ch r)"
    unfolding eq using True A B half_less [where 'a='l] by (intro uint_wi_exact) linarith+
  also have "\<dots> = (uint a - uint b) mod uint (ch r)"
    using True A B by (intro int_mod_wrap_neg [symmetric]) linarith+
  finally show ?thesis using True by simp
next
  case False
  note A = residue_bounds [OF p a] and B = residue_bounds [OF p b]
  have "uint (a - b) = uint a - uint b" using False by (simp add: uint_sub_lem [symmetric])
  also have "\<dots> = (uint a - uint b) mod uint (ch r)"
    using False A B by (intro mod_pos_pos_trivial [symmetric]) linarith+
  finally show ?thesis using False by simp
qed



section \<open>The branch-free operations against the guarded ones\<close>

text \<open>
  Claim C9. For a characteristic \<open>p = r->ch\<close> that is positive as a \<open>long\<close> (of 64 or of 32
  bits) and residues \<open>a, b\<close> below \<open>p\<close>, the shift-and-mask \<open>npAddM\<close> returns the same
  number as the variant with the comparison, namely \<open>(a + b) mod p\<close>, the shift-and-mask
  \<open>npSubM\<close> returns the same number as its guarded variant, namely \<open>(a - b) mod p\<close>, and
  both results are residues below \<open>p\<close> again. Primality of \<open>p\<close> is not needed.
\<close>

theorem npAddM_npSubM_agree_with_generic:
  fixes a b :: "'l::len number"
  assumes "LENGTH('l) = 64 \<or> LENGTH('l) = 32"
    and "0 <s ch r" and "a < ch r" and "b < ch r"
  shows "npAddM a b r = npAddM_generic a b r
       \<and> uint (npAddM a b r) = (uint a + uint b) mod uint (ch r)
       \<and> npAddM a b r < ch r
       \<and> npSubM a b r = npSubM_generic a b r
       \<and> uint (npSubM a b r) = (uint a - uint b) mod uint (ch r)
       \<and> npSubM a b r < ch r"
proof -
  have P: "0 < uint (ch r)" using pos_long [OF assms(2)] by simp
  have add: "uint (npAddM a b r) = (uint a + uint b) mod uint (ch r)"
    by (simp only: npAddM_cases [OF assms] uint_add_residues [OF assms(2-4)])
  have sub: "uint (npSubM a b r) = (uint a - uint b) mod uint (ch r)"
    by (simp only: npSubM_cases [OF assms] uint_sub_residues [OF assms(2-4)])
  have "npAddM a b r = npAddM_generic a b r"
    by (simp only: npAddM_cases [OF assms] npAddM_generic_cases [OF assms(2-4)])
  moreover have "npSubM a b r = npSubM_generic a b r"
    by (simp only: npSubM_cases [OF assms] npSubM_generic_cases [OF assms(2-4)])
  moreover have "npAddM a b r < ch r"
    unfolding word_less_def add using P by simp
  moreover have "npSubM a b r < ch r"
    unfolding word_less_def sub using P by simp
  ultimately show ?thesis using add sub by simp
qed

text \<open>The theorem at \<open>p = 32003\<close>, \<open>a = 32000\<close>, \<open>b = 17\<close>, with a 64-bit \<open>long\<close>.\<close>

theorem npAddM_npSubM_agree_with_generic_witness:
  "npAddM (32000 :: 64 number) 17 \<lparr>ch = 32003\<rparr> = npAddM_generic 32000 17 \<lparr>ch = 32003\<rparr>
   \<and> uint (npAddM (32000 :: 64 number) 17 \<lparr>ch = 32003\<rparr>)
       = (uint (32000 :: 64 number) + uint (17 :: 64 number)) mod uint (ch \<lparr>ch = 32003 :: 64 word\<rparr>)
   \<and> npAddM (32000 :: 64 number) 17 \<lparr>ch = 32003\<rparr> < ch \<lparr>ch = 32003\<rparr>
   \<and> npSubM (32000 :: 64 number) 17 \<lparr>ch = 32003\<rparr> = npSubM_generic 32000 17 \<lparr>ch = 32003\<rparr>
   \<and> uint (npSubM (32000 :: 64 number) 17 \<lparr>ch = 32003\<rparr>)
       = (uint (32000 :: 64 number) - uint (17 :: 64 number)) mod uint (ch \<lparr>ch = 32003 :: 64 word\<rparr>)
   \<and> npSubM (32000 :: 64 number) 17 \<lparr>ch = 32003\<rparr> < ch \<lparr>ch = 32003\<rparr>"
proof -
  have L: "LENGTH(64) = 64 \<or> LENGTH(64) = 32" by simp
  have p: "0 <s ch \<lparr>ch = 32003 :: 64 word\<rparr>" by (simp add: word_sless_alt)
  have a: "(32000 :: 64 word) < ch \<lparr>ch = 32003\<rparr>" by simp
  have b: "(17 :: 64 word) < ch \<lparr>ch = 32003\<rparr>" by simp
  show ?thesis by (rule npAddM_npSubM_agree_with_generic [OF L p a b])
qed

section \<open>Negation\<close>

text \<open>
  Claim C10. \<open>npNegM\<close> computes \<open>p - a\<close> with no test for zero. For a residue
  \<open>0 < a < p\<close> the result is the representative of \<open>-a\<close> modulo \<open>p\<close>, it is below \<open>p\<close>, and
  adding it to \<open>a\<close> with \<open>npAddM\<close> gives \<open>0\<close>. For \<open>a = 0\<close> the result is \<open>p\<close> itself, which is
  not below \<open>p\<close>.
\<close>

theorem npNegM_correct_for_nonzero_only:
  fixes a :: "'l::len number"
  assumes L: "LENGTH('l) = 64 \<or> LENGTH('l) = 32"
    and p: "0 <s ch r" and a0: "0 < a" and a: "a < ch r"
  shows "uint (npNegM a r) = (- uint a) mod uint (ch r)
       \<and> npNegM a r < ch r
       \<and> npAddM a (npNegM a r) r = 0
       \<and> npNegM 0 r = ch r
       \<and> \<not> npNegM 0 r < ch r"
proof -
  note A = residue_bounds [OF p a]
  have a_pos: "0 < uint a" using a0 by (simp add: word_less_def)
  have neg: "uint (npNegM a r) = uint (ch r) - uint a"
    unfolding npNegM_def using A by (intro uint_sub_lem [THEN iffD1]) linarith
  have "(- uint a) mod uint (ch r) = - uint a + uint (ch r)"
    using A a_pos by (intro int_mod_wrap_neg) linarith+
  then have m: "uint (npNegM a r) = (- uint a) mod uint (ch r)" using neg by simp
  have lt: "npNegM a r < ch r"
    unfolding word_less_def neg using a_pos by simp
  have "\<not> uint a + uint (npNegM a r) < uint (ch r)" using neg by simp
  then have "npAddM a (npNegM a r) r = a + npNegM a r - ch r"
    by (simp add: npAddM_cases [OF L p a lt])
  then have z: "npAddM a (npNegM a r) r = 0" by (simp add: npNegM_def)
  show ?thesis using m lt z by (simp add: npNegM_def)
qed

text \<open>The theorem at \<open>p = 32003\<close>, \<open>a = 5\<close>, with a 64-bit \<open>long\<close>.\<close>

theorem npNegM_correct_for_nonzero_only_witness:
  "uint (npNegM (5 :: 64 number) \<lparr>ch = 32003\<rparr>) = (- uint (5 :: 64 number)) mod uint (ch \<lparr>ch = 32003 :: 64 word\<rparr>)
   \<and> npNegM (5 :: 64 number) \<lparr>ch = 32003\<rparr> < ch \<lparr>ch = 32003\<rparr>
   \<and> npAddM (5 :: 64 number) (npNegM 5 \<lparr>ch = 32003\<rparr>) \<lparr>ch = 32003\<rparr> = 0
   \<and> npNegM 0 \<lparr>ch = 32003 :: 64 word\<rparr> = ch \<lparr>ch = 32003\<rparr>
   \<and> \<not> npNegM 0 \<lparr>ch = 32003 :: 64 word\<rparr> < ch \<lparr>ch = 32003\<rparr>"
proof -
  have L: "LENGTH(64) = 64 \<or> LENGTH(64) = 32" by simp
  have p: "0 <s ch \<lparr>ch = 32003 :: 64 word\<rparr>" by (simp add: word_sless_alt)
  have a0: "0 < (5 :: 64 word)" by simp
  have a: "(5 :: 64 word) < ch \<lparr>ch = 32003\<rparr>" by simp
  show ?thesis by (rule npNegM_correct_for_nonzero_only [OF L p a0 a])
qed


section \<open>The state queries\<close>

lemma and_1_bit: "(w AND 1 \<noteq> 0) = bit (w :: c_int) 0"
  using bit_iff_and_push_bit_not_eq_0 [of w 0] by simp

lemma and_2_bit: "(w AND 2 \<noteq> 0) = bit (w :: c_int) 1"
  using bit_iff_and_push_bit_not_eq_0 [of w 1] by simp

text \<open>
  Claim C1. \<open>areImpliedEquationsKnown()\<close> returns true exactly when the state is at least 1
  or the bit of \<open>PCP_impliedEquationsKnown\<close> (bit 0) is set in the preassumptions,
  \<open>areFacetsKnown()\<close> returns true exactly when the state is at least 2 or the bit of
  \<open>PCP_facetsKnown\<close> (bit 1) is set, and both leave every member of the cone as it was.
\<close>

theorem state_queries_are_pure_disjunctions:
  "fst (areImpliedEquationsKnown c) = (1 \<le> sint (state c) \<or> bit (preassumptions c) 0)
   \<and> fst (areFacetsKnown c) = (2 \<le> sint (state c) \<or> bit (preassumptions c) 1)
   \<and> snd (areImpliedEquationsKnown c) = c
   \<and> snd (areFacetsKnown c) = c"
  by (simp add: areImpliedEquationsKnown_def areFacetsKnown_def PCP_impliedEquationsKnown_def
      PCP_facetsKnown_def and_1_bit and_2_bit word_sle_eq)

text \<open>
  The theorem at a cone in state 0 that was constructed with \<open>PCP_facetsKnown\<close>: the facets
  count as known, the implied equations do not.
\<close>

theorem state_queries_are_pure_disjunctions_witness:
  "fst (areImpliedEquationsKnown (newZCone (identity 2) (emptyMatrix 2) PCP_facetsKnown)) = False
   \<and> fst (areFacetsKnown (newZCone (identity 2) (emptyMatrix 2) PCP_facetsKnown)) = True
   \<and> snd (areImpliedEquationsKnown (newZCone (identity 2) (emptyMatrix 2) PCP_facetsKnown))
       = newZCone (identity 2) (emptyMatrix 2) PCP_facetsKnown
   \<and> snd (areFacetsKnown (newZCone (identity 2) (emptyMatrix 2) PCP_facetsKnown))
       = newZCone (identity 2) (emptyMatrix 2) PCP_facetsKnown"
proof -
  have s: "sint (state (newZCone (identity 2) (emptyMatrix 2) PCP_facetsKnown)) = 0"
    by (simp add: newZCone_def)
  have b0: "\<not> bit (preassumptions (newZCone (identity 2) (emptyMatrix 2) PCP_facetsKnown)) 0"
    by (simp add: newZCone_def PCP_facetsKnown_def)
  have b1: "bit (preassumptions (newZCone (identity 2) (emptyMatrix 2) PCP_facetsKnown)) 1"
    by (simp add: newZCone_def PCP_facetsKnown_def)
  show ?thesis
    using state_queries_are_pure_disjunctions
      [of "newZCone (identity 2) (emptyMatrix 2) PCP_facetsKnown"]
    unfolding s using b0 b1 by simp
qed


section \<open>The knowledge level never decreases\<close>

lemma state_advanceBy: "state (advanceBy f c) = state c"
  by (simp add: advanceBy_def split: prod.splits)

lemma state_transition: "state (transition adv k s c) = state c"
  by (simp add: transition_def state_advanceBy)

lemma state_ensureStateAsMinimum: "state c \<le>s state (ensureStateAsMinimum adv s c)"
proof (cases "fst (isInStateMinimum s c)")
  case True
  then show ?thesis by (simp add: ensureStateAsMinimum_def)
next
  case False
  then have "\<not> s \<le>s state c" by (simp add: isInStateMinimum_def)
  then have "state c \<le>s s" by (simp add: word_sle_eq)
  then show ?thesis using False by (simp add: ensureStateAsMinimum_def)
qed

lemma state_applyOperation: "state c \<le>s state (applyOperation adv op c)"
  by (cases op) (simp_all add: state_ensureStateAsMinimum)

lemma sle_trans: "a \<le>s b \<Longrightarrow> b \<le>s c \<Longrightarrow> a \<le>s (c :: 'a::len word)"
  by (simp add: word_sle_eq)

lemma state_runOperations: "state c \<le>s state (runOperations adv ops c)"
proof (induction ops arbitrary: c)
  case Nil
  show ?case by simp
next
  case (Cons op ops)
  have "state c \<le>s state (applyOperation adv op c)"
    by (rule state_applyOperation)
  also have "\<dots> \<le>s state (runOperations adv ops (applyOperation adv op c))"
    by (rule Cons.IH)
  finally (sle_trans) show ?case by simp
qed

lemma runOperations_append:
  "runOperations adv (ops @ ops') c = runOperations adv ops' (runOperations adv ops c)"
  by (induction ops arbitrary: c) simp_all

text \<open>
  Claim C3. For every cone, whatever the advancing computations do to the matrices: the
  state after one operation is at least the state before it; the state after a sequence of
  operations is at least the state before it; and the state after a longer sequence is at
  least the state after any of its prefixes, so no operation resets the level. The order is
  that of the signed \<open>int\<close> the state is stored in.
\<close>

theorem knowledge_level_never_decreases:
  "state c \<le>s state (applyOperation adv op c)
   \<and> state c \<le>s state (runOperations adv ops c)
   \<and> state (runOperations adv ops c) \<le>s state (runOperations adv (ops @ ops') c)"
  by (simp add: state_applyOperation state_runOperations runOperations_append)

text \<open>
  The theorem on the positive orthant of dimension 2 with advancing computations that
  leave the matrices alone: a read at level 1, \<open>setMultiplicity(5)\<close>, \<open>canonicalize()\<close>, then
  \<open>findFacets()\<close> and a read at level 0. The levels reached are 3 and 3.
\<close>

lemma leaveMatrices_reaches_3:
  "state (runOperations leaveMatrices [ReadAtLevel 1, SetMultiplicity 5, Canonicalize]
      (positiveOrthant 2)) = 3"
  by code_simp

lemma leaveMatrices_stays_3:
  "state (runOperations leaveMatrices
      ([ReadAtLevel 1, SetMultiplicity 5, Canonicalize] @ [FindFacets, ReadAtLevel 0])
      (positiveOrthant 2)) = 3"
  by code_simp

theorem knowledge_level_never_decreases_witness:
  "state (positiveOrthant 2) \<le>s state (applyOperation leaveMatrices Canonicalize (positiveOrthant 2))
   \<and> state (positiveOrthant 2) \<le>s state (runOperations leaveMatrices
        [ReadAtLevel 1, SetMultiplicity 5, Canonicalize] (positiveOrthant 2))
   \<and> state (runOperations leaveMatrices
        [ReadAtLevel 1, SetMultiplicity 5, Canonicalize] (positiveOrthant 2))
      \<le>s state (runOperations leaveMatrices
        ([ReadAtLevel 1, SetMultiplicity 5, Canonicalize] @ [FindFacets, ReadAtLevel 0])
        (positiveOrthant 2))
   \<and> state (runOperations leaveMatrices
        [ReadAtLevel 1, SetMultiplicity 5, Canonicalize] (positiveOrthant 2)) = 3
   \<and> state (runOperations leaveMatrices
        ([ReadAtLevel 1, SetMultiplicity 5, Canonicalize] @ [FindFacets, ReadAtLevel 0])
        (positiveOrthant 2)) = 3"
  using knowledge_level_never_decreases [of "positiveOrthant 2" leaveMatrices Canonicalize
      "[ReadAtLevel 1, SetMultiplicity 5, Canonicalize]" "[FindFacets, ReadAtLevel 0]"]
    leaveMatrices_reaches_3 leaveMatrices_stays_3
  by blast


section \<open>Containment of a vector\<close>

lemma allNonNegative_iff: "allNonNegative rs v \<longleftrightarrow> (\<forall>r \<in> set rs. 0 \<le> dot r v)"
  by (induction rs) auto

lemma allZero_iff: "allZero es v \<longleftrightarrow> (\<forall>e \<in> set es. dot e v = 0)"
  by (induction es) auto

lemma dot_replicate_zero: "dot r (replicate k 0) = 0"
proof (induction r arbitrary: k)
  case Nil
  show ?case by simp
next
  case (Cons x xs)
  then show ?case by (cases k) simp_all
qed

lemma fst_contains:
  "fst (contains c v) \<longleftrightarrow>
     (\<forall>r \<in> set (rows (inequalities c)). 0 \<le> dot r v)
     \<and> (\<forall>e \<in> set (rows (equations c)). dot e v = 0)"
  by (simp add: contains_def allNonNegative_iff allZero_iff)

lemma snd_contains: "snd (contains c v) = c"
  by (simp add: contains_def)

lemma contains_zeroVector: "fst (contains c (zeroVector k))"
  by (simp add: fst_contains zeroVector_def dot_replicate_zero)

lemma orthant_contains_ones: "contains (positiveOrthant 3) [1, 1, 1] = (True, positiveOrthant 3)"
  by (simp add: contains_def positiveOrthant_def newZCone_def identity_def emptyMatrix_def
      unitVector_def upt_rec)

lemma orthant_excludes_negative:
  "contains (positiveOrthant 3) [- 1, 0, 0] = (False, positiveOrthant 3)"
  by (simp add: contains_def positiveOrthant_def newZCone_def identity_def emptyMatrix_def
      unitVector_def upt_rec)

text \<open>
  Claim C5. For a cone \<open>c\<close> and a vector \<open>v\<close> of matching dimension, \<open>contains(v)\<close> is true
  exactly when \<open>r \<cdot> v \<ge> 0\<close> for every row \<open>r\<close> of the inequalities and \<open>e \<cdot> v = 0\<close> for every row
  \<open>e\<close> of the equations, and the call leaves the cone as it was, whatever its level. The zero
  vector is contained in every cone. The positive orthant of dimension 3 contains
  \<open>(1, 1, 1)\<close> and does not contain \<open>(-1, 0, 0)\<close>.
\<close>

theorem contains_evaluates_rows_directly:
  assumes "matchingDimension c v"
  shows "fst (contains c v)
           = ((\<forall>r \<in> set (rows (inequalities c)). 0 \<le> dot r v)
              \<and> (\<forall>e \<in> set (rows (equations c)). dot e v = 0))
       \<and> snd (contains c v) = c
       \<and> fst (contains c (zeroVector (unat (n c))))
       \<and> snd (contains c (zeroVector (unat (n c)))) = c
       \<and> fst (contains (positiveOrthant 3) [1, 1, 1])
       \<and> \<not> fst (contains (positiveOrthant 3) [- 1, 0, 0])"
  by (simp add: fst_contains [symmetric] snd_contains contains_zeroVector
      orthant_contains_ones orthant_excludes_negative)

text \<open>The theorem at the positive orthant of dimension 3 and the vector \<open>(2, 0, 5)\<close>.\<close>

theorem contains_evaluates_rows_directly_witness:
  "matchingDimension (positiveOrthant 3) [2, 0, 5]
   \<and> fst (contains (positiveOrthant 3) [2, 0, 5])
       = ((\<forall>r \<in> set (rows (inequalities (positiveOrthant 3))). 0 \<le> dot r [2, 0, 5])
          \<and> (\<forall>e \<in> set (rows (equations (positiveOrthant 3))). dot e [2, 0, 5] = 0))
   \<and> snd (contains (positiveOrthant 3) [2, 0, 5]) = positiveOrthant 3
   \<and> fst (contains (positiveOrthant 3) (zeroVector (unat (n (positiveOrthant 3)))))
   \<and> snd (contains (positiveOrthant 3) (zeroVector (unat (n (positiveOrthant 3)))))
       = positiveOrthant 3
   \<and> fst (contains (positiveOrthant 3) [1, 1, 1])
   \<and> \<not> fst (contains (positiveOrthant 3) [- 1, 0, 0])"
proof -
  have m: "matchingDimension (positiveOrthant 3) [2, 0, 5]"
    by (simp add: matchingDimension_def positiveOrthant_def newZCone_def identity_def
        emptyMatrix_def unitVector_def upt_rec)
  show ?thesis
    using m contains_evaluates_rows_directly [OF m] by (rule conjI)
qed

end
